theory Spec2Isabelle
  imports Main "HOL-Library.Word"
begin

section \<open>raylib utils: trace log and file helpers\<close>

text \<open>
  A shallow embedding of \<^verbatim>\<open>src/utils.c\<close>. The module's globals and everything it
  can observe of its surroundings (the file system, the calls it makes to the C library
  and to the Android asset API) are one explicit \<open>world\<close> value that every function
  takes and returns. A C string is a \<open>string\<close>, a possibly null pointer is an
  \<open>option\<close>, the sizes and counts held in an \<^verbatim>\<open>int\<close> or an \<^verbatim>\<open>unsigned int\<close> are
  \<open>32 word\<close>.
\<close>

subsection \<open>Constants\<close>

text \<open>
  Modelled from the spec: the severity enumeration is declared in \<^verbatim>\<open>raylib.h\<close>, which
  is not part of the sources at hand. The spec orders it
  trace < debug < info < warning < error < fatal; the numbers are consecutive.
\<close>

definition LOG_TRACE :: int where "LOG_TRACE = 1"
definition LOG_DEBUG :: int where "LOG_DEBUG = 2"
definition LOG_INFO :: int where "LOG_INFO = 3"
definition LOG_WARNING :: int where "LOG_WARNING = 4"
definition LOG_ERROR :: int where "LOG_ERROR = 5"
definition LOG_FATAL :: int where "LOG_FATAL = 6"

lemmas LOG_defs =
  LOG_TRACE_def LOG_DEBUG_def LOG_INFO_def LOG_WARNING_def LOG_ERROR_def LOG_FATAL_def

definition MAX_TRACELOG_MSG_LENGTH :: nat where
  "MAX_TRACELOG_MSG_LENGTH = 128"

text \<open>The string terminator and the line feed.\<close>

definition NUL :: char where "NUL = CHR 0x00"
definition LF :: char where "LF = CHR 0x0A"

text \<open>\<^verbatim>\<open>EACCES\<close> of \<^verbatim>\<open>errno.h\<close> (Linux and Android: 13).\<close>

definition EACCES :: int where "EACCES = 13"

text \<open>The priorities of \<^verbatim>\<open>android/log.h\<close> that \<^verbatim>\<open>TraceLog\<close> uses.\<close>

datatype android_LogPriority =
  ANDROID_LOG_VERBOSE | ANDROID_LOG_DEBUG | ANDROID_LOG_INFO
  | ANDROID_LOG_WARN | ANDROID_LOG_ERROR | ANDROID_LOG_FATAL

subsection \<open>Build configuration and platform\<close>

text \<open>The two preprocessor switches the module's code depends on.\<close>

record config =
  SUPPORT_TRACELOG :: bool
  PLATFORM_ANDROID :: bool

text \<open>An argument handed through a \<^verbatim>\<open>va_list\<close>.\<close>

datatype vararg = VA_String "string option" | VA_Int int

text \<open>
  What the C library and the operating system decide: whether an open is refused,
  whether the position of a stream can be told, how many bytes a transfer moves before
  an error cuts it short (\<open>None\<close>: no error), what text mode does to the bytes on the
  way in and out, whether formatted output fails and which of its bytes a failing call
  has put in the file all the same. \<open>TextFormat\<close> is raylib's own
  formatter from the text module (not part of the sources at hand), taken as a parameter.
\<close>

record platform =
  fopen_denied :: "string \<Rightarrow> string \<Rightarrow> bool"
  ftell_fails :: "string \<Rightarrow> bool"
  read_quota :: "string \<Rightarrow> nat option"
  write_quota :: "string \<Rightarrow> nat option"
  text_mode_read :: "string \<Rightarrow> string"
  text_mode_write :: "string \<Rightarrow> string"
  fprintf_fails :: "string \<Rightarrow> bool"
  fprintf_residue :: "string \<Rightarrow> string \<Rightarrow> string"
  TextFormat :: "string \<Rightarrow> vararg list \<Rightarrow> string"

subsection \<open>The world\<close>

text \<open>A log callback is a function pointer; the model keeps its address.\<close>

type_synonym TraceLogCallback = nat

text \<open>The asset bundle behind an \<^verbatim>\<open>AAssetManager\<close>: asset name to content.\<close>

type_synonym AAssetManager = "string \<rightharpoonup> string"

text \<open>The calls that leave the module, in the order they are made.\<close>

datatype event =
  Vprintf string "vararg list"
  | Android_Log_Vprint android_LogPriority string string "vararg list"
  | Callback_Call TraceLogCallback int string "vararg list"
  | Fopen string string
  | Fread string nat
  | Fwrite string nat
  | Fprintf string string
  | Fclose string
  | AAssetManager_Open string
  | Funopen string

record world =
  logTypeLevel :: int
  logTypeExit :: int
  logCallback :: "TraceLogCallback option"
  assetManager :: "AAssetManager option"
  internalDataPath :: "string option"
  files :: "string \<rightharpoonup> string"
  trace :: "event list"

definition emit_event :: "event \<Rightarrow> world \<Rightarrow> world" where
  "emit_event e s = s\<lparr>trace := trace s @ [e]\<rparr>"

text \<open>The globals as the module initialises them, over a given file system.\<close>

definition initial_world :: "(string \<rightharpoonup> string) \<Rightarrow> world" where
  "initial_world fs =
     \<lparr>logTypeLevel = LOG_INFO, logTypeExit = LOG_ERROR, logCallback = None,
      assetManager = None, internalDataPath = None, files = fs, trace = []\<rparr>"

subsection \<open>Outcomes\<close>

text \<open>
  A call returns a value, or ends the process through \<^verbatim>\<open>exit\<close>, or leaves defined
  behaviour by touching memory outside an object.
\<close>

datatype fault = Buffer_Overrun | Null_Dereference

datatype 'a outcome =
  Returned 'a world
  | Exited int world
  | Faulted fault

definition then_do :: "'a outcome \<Rightarrow> ('a \<Rightarrow> world \<Rightarrow> 'b outcome) \<Rightarrow> 'b outcome" where
  "then_do m f =
     (case m of Returned x s \<Rightarrow> f x s | Exited c s \<Rightarrow> Exited c s | Faulted e \<Rightarrow> Faulted e)"

definition final_world :: "'a outcome \<Rightarrow> world option" where
  "final_world m =
     (case m of Returned x s \<Rightarrow> Some s | Exited c s \<Rightarrow> Some s | Faulted e \<Rightarrow> None)"

text \<open>The value a call returns, when it returns.\<close>

definition returned :: "'a outcome \<Rightarrow> 'a option" where
  "returned m =
     (case m of Returned x s \<Rightarrow> Some x | Exited c s \<Rightarrow> None | Faulted e \<Rightarrow> None)"

subsection \<open>C strings in character arrays\<close>

text \<open>The string a character array holds: the characters before the first terminator.\<close>

definition c_str :: "string \<Rightarrow> string" where
  "c_str b = takeWhile (\<lambda>c. c \<noteq> NUL) b"

text \<open>
  \<^verbatim>\<open>strcpy\<close> and \<^verbatim>\<open>strcat\<close> on a destination array of known size. Both write the
  source's characters and a terminator; neither looks at the size of the destination, so
  a write that does not fit lands outside the array.
\<close>

definition strcpy :: "string \<Rightarrow> string \<Rightarrow> fault + string" where
  "strcpy dest src =
     (let bytes = c_str src @ [NUL] in
      if length bytes \<le> length dest then Inr (bytes @ drop (length bytes) dest)
      else Inl Buffer_Overrun)"

definition strcat :: "string \<Rightarrow> string \<Rightarrow> fault + string" where
  "strcat dest src =
     (let n = length (c_str dest); bytes = c_str src @ [NUL] in
      if n + length bytes \<le> length dest
      then Inr (take n dest @ bytes @ drop (n + length bytes) dest)
      else Inl Buffer_Overrun)"

subsection \<open>The logger\<close>

definition SetTraceLogLevel :: "int \<Rightarrow> world \<Rightarrow> world" where
  "SetTraceLogLevel logType s = s\<lparr>logTypeLevel := logType\<rparr>"

definition SetTraceLogExit :: "int \<Rightarrow> world \<Rightarrow> world" where
  "SetTraceLogExit logType s = s\<lparr>logTypeExit := logType\<rparr>"

definition SetTraceLogCallback :: "TraceLogCallback option \<Rightarrow> world \<Rightarrow> world" where
  "SetTraceLogCallback callback s = s\<lparr>logCallback := callback\<rparr>"

text \<open>The first \<^verbatim>\<open>switch\<close> of the desktop branch: the label copied into the buffer.\<close>

definition log_prefix :: "int \<Rightarrow> string option" where
  "log_prefix logType =
     (if logType = LOG_TRACE then Some ''TRACE: ''
      else if logType = LOG_DEBUG then Some ''DEBUG: ''
      else if logType = LOG_INFO then Some ''INFO: ''
      else if logType = LOG_WARNING then Some ''WARNING: ''
      else if logType = LOG_ERROR then Some ''ERROR: ''
      else if logType = LOG_FATAL then Some ''FATAL: ''
      else None)"

text \<open>The \<^verbatim>\<open>switch\<close> of the Android branch; other values print nothing.\<close>

definition android_priority :: "int \<Rightarrow> android_LogPriority option" where
  "android_priority logType =
     (if logType = LOG_TRACE then Some ANDROID_LOG_VERBOSE
      else if logType = LOG_DEBUG then Some ANDROID_LOG_DEBUG
      else if logType = LOG_INFO then Some ANDROID_LOG_INFO
      else if logType = LOG_WARNING then Some ANDROID_LOG_WARN
      else if logType = LOG_ERROR then Some ANDROID_LOG_ERROR
      else if logType = LOG_FATAL then Some ANDROID_LOG_FATAL
      else None)"

text \<open>
  The staging buffer of the desktop branch: 128 zeroed characters, then the label, the
  format string and a line feed, each appended with its terminator.
\<close>

definition stage_message :: "int \<Rightarrow> string \<Rightarrow> fault + string" where
  "stage_message logType text =
     (let buffer = replicate MAX_TRACELOG_MSG_LENGTH NUL in
      case (case log_prefix logType of
              Some label \<Rightarrow> strcpy buffer label
            | None \<Rightarrow> Inr buffer) of
        Inl e \<Rightarrow> Inl e
      | Inr b1 \<Rightarrow>
          (case strcat b1 text of
             Inl e \<Rightarrow> Inl e
           | Inr b2 \<Rightarrow> strcat b2 [LF]))"

text \<open>
  \<^verbatim>\<open>TraceLog\<close>. A callback is assumed to return; its call is all the model keeps of
  it.
\<close>

definition TraceLog :: "config \<Rightarrow> int \<Rightarrow> string \<Rightarrow> vararg list \<Rightarrow> world \<Rightarrow> unit outcome" where
  "TraceLog cfg logType text args s =
     (if \<not> SUPPORT_TRACELOG cfg then Returned () s
      else if logType < logTypeLevel s then Returned () s
      else
        (case logCallback s of
           Some callback \<Rightarrow> Returned () (emit_event (Callback_Call callback logType text args) s)
         | None \<Rightarrow>
             (case (if PLATFORM_ANDROID cfg
                    then Inr (case android_priority logType of
                                Some prio \<Rightarrow> emit_event (Android_Log_Vprint prio ''raylib'' text args) s
                              | None \<Rightarrow> s)
                    else (case stage_message logType text of
                            Inl e \<Rightarrow> Inl e
                          | Inr buffer \<Rightarrow> Inr (emit_event (Vprintf (c_str buffer) args) s))) of
                Inl e \<Rightarrow> Faulted e
              | Inr s1 \<Rightarrow>
                  if logType \<ge> logTypeExit s1 then Exited 1 s1 else Returned () s1)))"

text \<open>
  Modelled from the spec: the macro \<^verbatim>\<open>TRACELOG\<close> is defined in \<^verbatim>\<open>utils.h\<close>, which is
  not part of the sources at hand. The file helpers and the asset shim call the logger
  through it to report their outcomes: it is the call of \<^verbatim>\<open>TraceLog\<close> itself.
\<close>

definition TRACELOG :: "config \<Rightarrow> int \<Rightarrow> string \<Rightarrow> vararg list \<Rightarrow> world \<Rightarrow> unit outcome" where
  "TRACELOG cfg level text args s = TraceLog cfg level text args s"

subsection \<open>Heap blocks and streams\<close>

text \<open>
  Modelled from the spec: the allocator macros \<^verbatim>\<open>RL_MALLOC\<close> and \<^verbatim>\<open>RL_REALLOC\<close> are
  defined in \<^verbatim>\<open>raylib.h\<close>, which is not part of the sources at hand; the spec has an
  allocator of owned byte buffers supplied from outside. A block is one cell per byte,
  \<open>None\<close> while nothing has been stored in it, and allocation is assumed to succeed.
\<close>

type_synonym buffer = "char option list"

definition RL_MALLOC :: "nat \<Rightarrow> buffer" where
  "RL_MALLOC n = replicate n None"

definition RL_REALLOC :: "buffer \<Rightarrow> nat \<Rightarrow> buffer" where
  "RL_REALLOC b n = take n b @ replicate (n - length b) None"

record FILE =
  file_name :: string
  file_mode :: string

definition binary_mode :: "string \<Rightarrow> bool" where
  "binary_mode mode = (CHR ''b'' \<in> set mode)"

text \<open>
  \<^verbatim>\<open>fopen\<close> of the C library: mode \<^verbatim>\<open>w\<close> creates or empties the file, mode
  \<^verbatim>\<open>a\<close> creates it when missing, any other mode needs it to exist.
\<close>

definition fopen :: "platform \<Rightarrow> string \<Rightarrow> string \<Rightarrow> world \<Rightarrow> FILE option \<times> world" where
  "fopen P name mode s =
     (let s1 = emit_event (Fopen name mode) s;
          file = \<lparr>file_name = name, file_mode = mode\<rparr> in
      if fopen_denied P name mode then (None, s1)
      else if take 1 mode = ''w'' then (Some file, s1\<lparr>files := (files s1)(name \<mapsto> [])\<rparr>)
      else
        (case files s1 name of
           Some content \<Rightarrow> (Some file, s1)
         | None \<Rightarrow>
             if take 1 mode = ''a'' then (Some file, s1\<lparr>files := (files s1)(name \<mapsto> [])\<rparr>)
             else (None, s1)))"

definition fclose :: "FILE \<Rightarrow> world \<Rightarrow> world" where
  "fclose file s = emit_event (Fclose (file_name file)) s"

text \<open>The bytes a stream delivers from its start.\<close>

definition stream_bytes :: "platform \<Rightarrow> FILE \<Rightarrow> world \<Rightarrow> string" where
  "stream_bytes P file s =
     (case files s (file_name file) of
        None \<Rightarrow> []
      | Some raw \<Rightarrow> if binary_mode (file_mode file) then raw else text_mode_read P raw)"

text \<open>
  \<^verbatim>\<open>fseek(file, 0, SEEK_END); ftell(file); fseek(file, 0, SEEK_SET)\<close>: the offset of
  the end of the file as a \<^verbatim>\<open>long\<close>, or -1 where the position cannot be told. The
  stream is at its start afterwards.
\<close>

definition ftell_end :: "platform \<Rightarrow> FILE \<Rightarrow> world \<Rightarrow> int" where
  "ftell_end P file s =
     (if ftell_fails P (file_name file) then - 1
      else (case files s (file_name file) of None \<Rightarrow> 0 | Some raw \<Rightarrow> int (length raw)))"

text \<open>
  \<^verbatim>\<open>fread(buf, 1, n, file)\<close> from the start of the stream: the count of bytes read,
  stored at the front of \<open>buf\<close>, whatever its size is.
\<close>

definition fread ::
  "platform \<Rightarrow> buffer \<Rightarrow> nat \<Rightarrow> FILE \<Rightarrow> world \<Rightarrow> fault + (buffer \<times> nat \<times> world)" where
  "fread P buf n file s =
     (let avail = stream_bytes P file s;
          k = (case read_quota P (file_name file) of
                 None \<Rightarrow> min n (length avail)
               | Some q \<Rightarrow> min (min n (length avail)) q);
          s1 = emit_event (Fread (file_name file) n) s in
      if k \<le> length buf then Inr (map Some (take k avail) @ drop k buf, k, s1)
      else Inl Buffer_Overrun)"

text \<open>\<^verbatim>\<open>fwrite(data, 1, n, file)\<close>: the count of bytes written, appended to the file.\<close>

definition fwrite ::
  "platform \<Rightarrow> string \<Rightarrow> nat \<Rightarrow> FILE \<Rightarrow> world \<Rightarrow> fault + (nat \<times> world)" where
  "fwrite P data n file s =
     (let name = file_name file;
          k = (case write_quota P name of None \<Rightarrow> n | Some q \<Rightarrow> min n q);
          bytes = (if binary_mode (file_mode file) then take k data
                   else text_mode_write P (take k data));
          old = (case files s name of None \<Rightarrow> [] | Some raw \<Rightarrow> raw);
          s1 = emit_event (Fwrite name n) s in
      if k \<le> length data then Inr (k, s1\<lparr>files := (files s1)(name \<mapsto> old @ bytes)\<rparr>)
      else Inl Buffer_Overrun)"

text \<open>
  \<^verbatim>\<open>fprintf(file, "%s", text)\<close>: the count of characters written, as an \<^verbatim>\<open>int\<close>. The
  result is -1 when the output fails, and also when the count does not fit in the 31
  bits of a non-negative \<^verbatim>\<open>int\<close>.
\<close>

definition fprintf_s :: "platform \<Rightarrow> FILE \<Rightarrow> string \<Rightarrow> world \<Rightarrow> int \<times> world" where
  "fprintf_s P file text s =
     (let name = file_name file;
          bytes = (if binary_mode (file_mode file) then c_str text
                   else text_mode_write P (c_str text));
          old = (case files s name of None \<Rightarrow> [] | Some raw \<Rightarrow> raw);
          s1 = emit_event (Fprintf name text) s in
      if fprintf_fails P name \<or> 2 ^ 31 \<le> length (c_str text)
      then (- 1, s1\<lparr>files := (files s1)(name \<mapsto> old @ fprintf_residue P name bytes)\<rparr>)
      else (int (length (c_str text)), s1\<lparr>files := (files s1)(name \<mapsto> old @ bytes)\<rparr>))"

subsection \<open>The file helpers\<close>

text \<open>
  As built for any platform but Android, where \<^verbatim>\<open>fopen\<close> is the C library's. The
  result of \<^verbatim>\<open>LoadFileData\<close> is the returned pointer and the value left in
  \<^verbatim>\<open>*bytesRead\<close>. The \<^verbatim>\<open>long\<close> that \<^verbatim>\<open>ftell\<close> returns is narrowed to 32 bits
  by wrap-around: read as signed in \<^verbatim>\<open>LoadFileData\<close> (\<^verbatim>\<open>int size\<close>), as unsigned in
  \<^verbatim>\<open>LoadFileText\<close> (\<^verbatim>\<open>unsigned int size\<close>).
\<close>

definition LoadFileData ::
  "config \<Rightarrow> platform \<Rightarrow> string option \<Rightarrow> world \<Rightarrow> (buffer option \<times> 32 word) outcome" where
  "LoadFileData cfg P fileName s =
     (case fileName of
        None \<Rightarrow>
          then_do (TRACELOG cfg LOG_WARNING ''FILEIO: File name provided is not valid'' [] s)
            (\<lambda>_ s1. Returned (None, 0) s1)
      | Some name \<Rightarrow>
          (case fopen P name ''rb'' s of
             (None, s1) \<Rightarrow>
               then_do (TRACELOG cfg LOG_WARNING ''FILEIO: [%s] Failed to open file''
                          [VA_String (Some name)] s1)
                 (\<lambda>_ s2. Returned (None, 0) s2)
           | (Some file, s1) \<Rightarrow>
               (let size = (word_of_int (ftell_end P file s1) :: 32 word) in
                if 0 < sint size then
                  (case fread P (RL_MALLOC (unat size)) (unat size) file s1 of
                     Inl e \<Rightarrow> Faulted e
                   | Inr (data, k, s2) \<Rightarrow>
                       (let count = (word_of_nat k :: 32 word) in
                        then_do
                          (if count \<noteq> size
                           then TRACELOG cfg LOG_WARNING ''FILEIO: [%s] File partially loaded''
                                  [VA_String (Some name)] s2
                           else TRACELOG cfg LOG_INFO ''FILEIO: [%s] File loaded successfully''
                                  [VA_String (Some name)] s2)
                          (\<lambda>_ s3. Returned (Some data, count) (fclose file s3))))
                else
                  then_do (TRACELOG cfg LOG_WARNING ''FILEIO: [%s] Failed to read file''
                             [VA_String (Some name)] s1)
                    (\<lambda>_ s2. Returned (None, 0) (fclose file s2)))))"

definition SaveFileData ::
  "config \<Rightarrow> platform \<Rightarrow> string option \<Rightarrow> string \<Rightarrow> 32 word \<Rightarrow> world \<Rightarrow> unit outcome" where
  "SaveFileData cfg P fileName data bytesToWrite s =
     (case fileName of
        None \<Rightarrow> TRACELOG cfg LOG_WARNING ''FILEIO: File name provided is not valid'' [] s
      | Some name \<Rightarrow>
          (case fopen P name ''wb'' s of
             (None, s1) \<Rightarrow>
               TRACELOG cfg LOG_WARNING ''FILEIO: [%s] Failed to open file''
                 [VA_String (Some name)] s1
           | (Some file, s1) \<Rightarrow>
               (case fwrite P data (unat bytesToWrite) file s1 of
                  Inl e \<Rightarrow> Faulted e
                | Inr (k, s2) \<Rightarrow>
                    (let count = (word_of_nat k :: 32 word) in
                     then_do
                       (if count = 0
                        then TRACELOG cfg LOG_WARNING ''FILEIO: [%s] Failed to write file''
                               [VA_String (Some name)] s2
                        else if count \<noteq> bytesToWrite
                        then TRACELOG cfg LOG_WARNING ''FILEIO: [%s] File partially written''
                               [VA_String (Some name)] s2
                        else TRACELOG cfg LOG_INFO ''FILEIO: [%s] File saved successfully''
                               [VA_String (Some name)] s2)
                       (\<lambda>_ s3. Returned () (fclose file s3))))))"

definition LoadFileText ::
  "config \<Rightarrow> platform \<Rightarrow> string option \<Rightarrow> world \<Rightarrow> buffer option outcome" where
  "LoadFileText cfg P fileName s =
     (case fileName of
        None \<Rightarrow>
          then_do (TRACELOG cfg LOG_WARNING ''FILEIO: File name provided is not valid'' [] s)
            (\<lambda>_ s1. Returned None s1)
      | Some name \<Rightarrow>
          (case fopen P name ''rt'' s of
             (None, s1) \<Rightarrow>
               then_do (TRACELOG cfg LOG_WARNING ''FILEIO: [%s] Failed to open text file''
                          [VA_String (Some name)] s1)
                 (\<lambda>_ s2. Returned None s2)
           | (Some textFile, s1) \<Rightarrow>
               (let size = (word_of_int (ftell_end P textFile s1) :: 32 word) in
                if 0 < size then
                  (case fread P (RL_MALLOC (unat (size + 1))) (unat size) textFile s1 of
                     Inl e \<Rightarrow> Faulted e
                   | Inr (text, k, s2) \<Rightarrow>
                       (let count = (word_of_nat k :: 32 word);
                            text1 = (if count < size then RL_REALLOC text (unat (count + 1))
                                     else text) in
                        if unat count < length text1 then
                          then_do (TRACELOG cfg LOG_INFO
                                     ''FILEIO: [%s] Text file loaded successfully''
                                     [VA_String (Some name)] s2)
                            (\<lambda>_ s3. Returned (Some (text1[unat count := Some NUL]))
                                       (fclose textFile s3))
                        else Faulted Buffer_Overrun))
                else
                  then_do (TRACELOG cfg LOG_WARNING ''FILEIO: [%s] Failed to read text file''
                             [VA_String (Some name)] s1)
                    (\<lambda>_ s2. Returned None (fclose textFile s2)))))"

definition SaveFileText ::
  "config \<Rightarrow> platform \<Rightarrow> string option \<Rightarrow> string \<Rightarrow> world \<Rightarrow> unit outcome" where
  "SaveFileText cfg P fileName text s =
     (case fileName of
        None \<Rightarrow> TRACELOG cfg LOG_WARNING ''FILEIO: File name provided is not valid'' [] s
      | Some name \<Rightarrow>
          (case fopen P name ''wt'' s of
             (None, s1) \<Rightarrow>
               TRACELOG cfg LOG_WARNING ''FILEIO: [%s] Failed to open text file''
                 [VA_String (Some name)] s1
           | (Some file, s1) \<Rightarrow>
               (case fprintf_s P file text s1 of
                  (count, s2) \<Rightarrow>
                    then_do
                      (if count < 0
                       then TRACELOG cfg LOG_WARNING ''FILEIO: [%s] Failed to write text file''
                              [VA_String (Some name)] s2
                       else TRACELOG cfg LOG_INFO ''FILEIO: [%s] Text file saved successfully''
                              [VA_String (Some name)] s2)
                      (\<lambda>_ s3. Returned () (fclose file s3)))))"

subsection \<open>The Android asset shim\<close>

definition InitAssetManager :: "AAssetManager option \<Rightarrow> string option \<Rightarrow> world \<Rightarrow> world" where
  "InitAssetManager manager dataPath s =
     s\<lparr>assetManager := manager, internalDataPath := dataPath\<rparr>"

text \<open>An open asset is known by its name in the bundle.\<close>

type_synonym AAsset = string

text \<open>
  \<^verbatim>\<open>AAssetManager_open\<close> of the platform: the asset of that name, or null. It reads
  through the manager pointer.
\<close>

definition AAssetManager_open :: "string \<Rightarrow> world \<Rightarrow> AAsset option outcome" where
  "AAssetManager_open fileName s =
     (case assetManager s of
        None \<Rightarrow> Faulted Null_Dereference
      | Some bundle \<Rightarrow>
          Returned (case bundle fileName of None \<Rightarrow> None | Some content \<Rightarrow> Some fileName)
            (emit_event (AAssetManager_Open fileName) s))"

text \<open>
  What \<^verbatim>\<open>android_fopen\<close> returns: a stream of the C library, or the stream
  \<^verbatim>\<open>funopen\<close> builds over an asset with \<^verbatim>\<open>android_read\<close>, \<^verbatim>\<open>android_write\<close>,
  \<^verbatim>\<open>android_seek\<close> and \<^verbatim>\<open>android_close\<close>.
\<close>

datatype stream = Std_Stream FILE | Asset_Stream AAsset

definition android_fopen :: "platform \<Rightarrow> string \<Rightarrow> string \<Rightarrow> world \<Rightarrow> stream option outcome" where
  "android_fopen P fileName mode s =
     (if (case mode of [] \<Rightarrow> NUL | c # cs \<Rightarrow> c) = CHR ''w'' then
        (case fopen P (TextFormat P ''%s/%s''
                         [VA_String (internalDataPath s), VA_String (Some fileName)]) mode s of
           (file, s1) \<Rightarrow> Returned (map_option Std_Stream file) s1)
      else
        then_do (AAssetManager_open fileName s)
          (\<lambda>asset s1.
             case asset of
               Some a \<Rightarrow> Returned (Some (Asset_Stream a)) (emit_event (Funopen a) s1)
             | None \<Rightarrow>
                 (case fopen P (TextFormat P ''%s/%s''
                                  [VA_String (internalDataPath s1), VA_String (Some fileName)])
                         mode s1 of
                    (file, s2) \<Rightarrow> Returned (map_option Std_Stream file) s2)))"

definition android_write :: "config \<Rightarrow> AAsset \<Rightarrow> string \<Rightarrow> int \<Rightarrow> world \<Rightarrow> int outcome" where
  "android_write cfg cookie buf size_arg s =
     then_do (TRACELOG cfg LOG_WARNING ''ANDROID: Failed to provide write access to APK'' [] s)
       (\<lambda>_ s1. Returned EACCES s1)"

text \<open>
  How a \<^verbatim>\<open>funopen\<close> stream reads the result of its write function: the number of
  bytes the function took, and an error when the number is not positive.
\<close>

definition funopen_write_result :: "int \<Rightarrow> nat option" where
  "funopen_write_result r = (if r \<le> 0 then None else Some (nat r))"

subsection \<open>Notions the properties are stated with\<close>

text \<open>The label the desktop branch puts in front of a message (none for other values).\<close>

definition log_label :: "int \<Rightarrow> string" where
  "log_label logType = (case log_prefix logType of None \<Rightarrow> [] | Some label \<Rightarrow> label)"

text \<open>
  Label, format string, line feed and terminator fit in the staging buffer.
\<close>

definition message_fits :: "int \<Rightarrow> string \<Rightarrow> bool" where
  "message_fits logType text =
     (length (log_label logType) + length (c_str text) + 2 \<le> MAX_TRACELOG_MSG_LENGTH)"

text \<open>The calls that reach the file system or the asset bundle, and those that log.\<close>

definition is_file_call :: "event \<Rightarrow> bool" where
  "is_file_call e =
     (case e of
        Vprintf fmt args \<Rightarrow> False
      | Android_Log_Vprint prio tag fmt args \<Rightarrow> False
      | Callback_Call callback logType fmt args \<Rightarrow> False
      | _ \<Rightarrow> True)"

definition file_calls :: "world \<Rightarrow> event list" where
  "file_calls s = filter is_file_call (trace s)"

definition log_stream :: "world \<Rightarrow> event list" where
  "log_stream s = filter (\<lambda>e. \<not> is_file_call e) (trace s)"

text \<open>The calls that reach the asset bundle.\<close>

definition asset_calls :: "world \<Rightarrow> event list" where
  "asset_calls s =
     filter (\<lambda>e. case e of AAssetManager_Open name \<Rightarrow> True | Funopen asset \<Rightarrow> True | _ \<Rightarrow> False)
       (trace s)"

text \<open>Build configurations and a platform on which nothing fails, for the examples.\<close>

definition desktop :: config where
  "desktop = \<lparr>SUPPORT_TRACELOG = True, PLATFORM_ANDROID = False\<rparr>"

definition android :: config where
  "android = \<lparr>SUPPORT_TRACELOG = True, PLATFORM_ANDROID = True\<rparr>"

definition join_path :: "string \<Rightarrow> vararg list \<Rightarrow> string" where
  "join_path fmt args =
     (case args of
        [VA_String (Some dir), VA_String (Some name)] \<Rightarrow> dir @ ''/'' @ name
      | _ \<Rightarrow> fmt)"

definition plain_platform :: platform where
  "plain_platform =
     \<lparr>fopen_denied = (\<lambda>name mode. False), ftell_fails = (\<lambda>name. False),
      read_quota = (\<lambda>name. None), write_quota = (\<lambda>name. None),
      text_mode_read = (\<lambda>bytes. bytes), text_mode_write = (\<lambda>bytes. bytes),
      fprintf_fails = (\<lambda>name. False), fprintf_residue = (\<lambda>name bytes. []),
      TextFormat = join_path\<rparr>"

section \<open>Properties of the logger\<close>

subsection \<open>The staging buffer\<close>

lemma c_str_terminated: "NUL \<notin> set p \<Longrightarrow> c_str (p @ NUL # r) = p"
  by (simp add: c_str_def takeWhile_append)

lemma c_str_no_NUL: "NUL \<notin> set (c_str x)"
  unfolding c_str_def by (induction x) auto

lemma c_str_idem: "NUL \<notin> set p \<Longrightarrow> c_str p = p"
  unfolding c_str_def by (induction p) auto

lemma strcat_terminated:
  assumes "NUL \<notin> set p"
  shows "strcat (p @ NUL # r) src =
     (if length (c_str src) \<le> length r
      then Inr (p @ c_str src @ NUL # drop (length (c_str src)) r)
      else Inl Buffer_Overrun)"
  using assms by (simp add: strcat_def c_str_terminated Let_def)

lemma strcat_terminated2:
  assumes "NUL \<notin> set p" "NUL \<notin> set q"
  shows "strcat (p @ q @ NUL # r) src =
     (if length (c_str src) \<le> length r
      then Inr (p @ q @ c_str src @ NUL # drop (length (c_str src)) r)
      else Inl Buffer_Overrun)"
  using strcat_terminated [of "p @ q" r src] assms by simp

lemma strcpy_zeroed:
  "strcpy (replicate (Suc n) NUL) src =
     (if length (c_str src) \<le> n
      then Inr (c_str src @ NUL # replicate (n - length (c_str src)) NUL)
      else Inl Buffer_Overrun)"
  by (simp add: strcpy_def Let_def)

lemma log_label_no_NUL: "NUL \<notin> set (log_label logType)"
  by (simp add: log_label_def log_prefix_def NUL_def)

lemma log_label_c_str: "c_str (log_label logType) = log_label logType"
  by (rule c_str_idem [OF log_label_no_NUL])

lemma log_label_short: "length (log_label logType) \<le> 9"
  by (simp add: log_label_def log_prefix_def)

lemma labelled_buffer:
  "(case log_prefix logType of
      Some label \<Rightarrow> strcpy (replicate MAX_TRACELOG_MSG_LENGTH NUL) label
    | None \<Rightarrow> Inr (replicate MAX_TRACELOG_MSG_LENGTH NUL)) =
   Inr (log_label logType @ NUL # replicate (127 - length (log_label logType)) NUL)"
proof (cases "log_prefix logType")
  case None
  then show ?thesis
    by (simp add: log_label_def MAX_TRACELOG_MSG_LENGTH_def replicate_Suc [symmetric]
        del: replicate_Suc)
next
  case (Some label)
  then have l: "log_label logType = label" by (simp add: log_label_def)
  have "strcpy (replicate (Suc 127) NUL) label =
      Inr (label @ NUL # replicate (127 - length label) NUL)"
    using log_label_c_str [of logType] log_label_short [of logType] l
    by (simp only: strcpy_zeroed) simp
  then show ?thesis using Some l by (simp add: MAX_TRACELOG_MSG_LENGTH_def)
qed

text \<open>
  The staging buffer holds the message exactly when label, format string, line feed and
  terminator are at most 128 characters; a longer one is written past its end.
\<close>

lemma stage_message_eq:
  "stage_message logType text =
     (if message_fits logType text
      then Inr (log_label logType @ c_str text @ LF # NUL #
                replicate (126 - length (log_label logType) - length (c_str text)) NUL)
      else Inl Buffer_Overrun)"
proof -
  let ?L = "log_label logType" and ?t = "c_str text"
  have LF: "c_str [LF] = [LF]" by (simp add: c_str_def LF_def NUL_def)
  have n1: "NUL \<notin> set ?L" by (rule log_label_no_NUL)
  have n2: "NUL \<notin> set ?t" by (rule c_str_no_NUL)
  have s1: "strcat (?L @ NUL # replicate (127 - length ?L) NUL) text =
      (if length ?t \<le> 127 - length ?L
       then Inr (?L @ ?t @ NUL # replicate (127 - length ?L - length ?t) NUL)
       else Inl Buffer_Overrun)"
    by (simp add: strcat_terminated [OF n1])
  have s2: "strcat (?L @ ?t @ NUL # replicate (127 - length ?L - length ?t) NUL) [LF] =
      (if 1 \<le> 127 - length ?L - length ?t
       then Inr (?L @ ?t @ LF # NUL # replicate (126 - length ?L - length ?t) NUL)
       else Inl Buffer_Overrun)"
    by (simp add: strcat_terminated2 [OF n1 n2] LF)
  show ?thesis
  proof (cases "length ?t \<le> 127 - length ?L")
    case True
    then show ?thesis
      unfolding stage_message_def Let_def labelled_buffer
      using log_label_short [of logType]
      by (simp only: s1 s2 if_True sum.case)
        (auto simp: message_fits_def MAX_TRACELOG_MSG_LENGTH_def)
  next
    case False
    then show ?thesis
      unfolding stage_message_def Let_def labelled_buffer
      using log_label_short [of logType]
      by (simp only: s1 if_False sum.case)
        (auto simp: message_fits_def MAX_TRACELOG_MSG_LENGTH_def)
  qed
qed

lemma c_str_staged:
  "c_str (log_label logType @ c_str text @ LF # NUL # r) =
   log_label logType @ c_str text @ [LF]"
proof -
  have "NUL \<notin> set (log_label logType @ c_str text @ [LF])"
    using log_label_no_NUL c_str_no_NUL by (simp add: LF_def NUL_def)
  from c_str_terminated [OF this, of r] show ?thesis by simp
qed

text \<open>What the desktop branch does with a message, by whether it fits.\<close>

lemma TraceLog_desktop:
  assumes "SUPPORT_TRACELOG cfg" "\<not> PLATFORM_ANDROID cfg"
    and "logTypeLevel s \<le> logType" "logCallback s = None"
  shows "TraceLog cfg logType text args s =
     (if message_fits logType text
      then (if logTypeExit s \<le> logType
            then Exited 1 (emit_event (Vprintf (log_label logType @ c_str text @ [LF]) args) s)
            else Returned ()
                   (emit_event (Vprintf (log_label logType @ c_str text @ [LF]) args) s))
      else Faulted Buffer_Overrun)"
  using assms
  by (simp add: TraceLog_def stage_message_eq c_str_staged emit_event_def)


text \<open>
  C1. A message whose severity is below the current minimum level does nothing at all:
  the call returns and the world (output, callback, thresholds, file system) is the one
  it was given.
\<close>

theorem TraceLog_below_level:
  "logType < logTypeLevel s \<Longrightarrow> TraceLog cfg logType text args s = Returned () s"
  by (simp add: TraceLog_def)

theorem TraceLog_below_level_witness:
  "LOG_FATAL < logTypeLevel (SetTraceLogLevel 7 (initial_world Map.empty)) \<and>
   logTypeExit (SetTraceLogLevel 7 (initial_world Map.empty)) \<le> LOG_FATAL \<and>
   TraceLog desktop LOG_FATAL ''x = %i'' [VA_Int 3]
     (SetTraceLogLevel 7 (initial_world Map.empty)) =
   Returned () (SetTraceLogLevel 7 (initial_world Map.empty))"
proof -
  have h: "LOG_FATAL < logTypeLevel (SetTraceLogLevel 7 (initial_world Map.empty))"
    by (simp add: SetTraceLogLevel_def LOG_defs)
  have e: "logTypeExit (SetTraceLogLevel 7 (initial_world Map.empty)) \<le> LOG_FATAL"
    by (simp add: SetTraceLogLevel_def initial_world_def LOG_defs)
  from h e TraceLog_below_level [OF h] show ?thesis by simp
qed

text \<open>
  C2. With a callback installed, a message at or above the minimum level is handed to
  the callback with its severity, format string and arguments as they came, and the call
  returns: nothing is printed, and the process goes on whatever the exit threshold is.
\<close>

theorem TraceLog_callback:
  assumes "SUPPORT_TRACELOG cfg" and "logTypeLevel s \<le> logType"
    and "logCallback s = Some callback"
  shows "TraceLog cfg logType text args s =
     Returned () (s\<lparr>trace := trace s @ [Callback_Call callback logType text args]\<rparr>)"
  using assms by (simp add: TraceLog_def emit_event_def)

theorem TraceLog_callback_witness:
  "SUPPORT_TRACELOG desktop \<and>
   logTypeLevel (SetTraceLogCallback (Some 7) (initial_world Map.empty)) \<le> LOG_FATAL \<and>
   logCallback (SetTraceLogCallback (Some 7) (initial_world Map.empty)) = Some 7 \<and>
   logTypeExit (SetTraceLogCallback (Some 7) (initial_world Map.empty)) \<le> LOG_FATAL \<and>
   TraceLog desktop LOG_FATAL ''out of %s'' [VA_String (Some ''memory'')]
     (SetTraceLogCallback (Some 7) (initial_world Map.empty)) =
   Returned ()
     ((SetTraceLogCallback (Some 7) (initial_world Map.empty))
        \<lparr>trace := [Callback_Call 7 LOG_FATAL ''out of %s'' [VA_String (Some ''memory'')]]\<rparr>)"
proof -
  let ?s = "SetTraceLogCallback (Some 7) (initial_world Map.empty)"
  have a: "SUPPORT_TRACELOG desktop" by (simp add: desktop_def)
  have b: "logTypeLevel ?s \<le> LOG_FATAL"
    by (simp add: SetTraceLogCallback_def initial_world_def LOG_defs)
  have c: "logCallback ?s = Some 7" by (simp add: SetTraceLogCallback_def)
  have d: "logTypeExit ?s \<le> LOG_FATAL"
    by (simp add: SetTraceLogCallback_def initial_world_def LOG_defs)
  have e: "trace ?s = []" by (simp add: SetTraceLogCallback_def initial_world_def)
  from TraceLog_callback [OF a b c, of "''out of %s''" "[VA_String (Some ''memory'')]"] a b c d e
  show ?thesis by simp
qed




text \<open>
  C5. The staging buffer is not guarded: a warning whose format string has 118
  characters needs 9 + 118 + 1 + 1 = 129 bytes, and the second \<^verbatim>\<open>strcat\<close> writes
  past the end of the 128 bytes.
\<close>

theorem TraceLog_overruns_staging_buffer:
  "TraceLog desktop LOG_WARNING (replicate 118 (CHR ''x'')) [] (initial_world Map.empty) =
   Faulted Buffer_Overrun"
proof -
  have "c_str (replicate 118 (CHR ''x'')) = replicate 118 (CHR ''x'')"
    by (rule c_str_idem) (simp add: NUL_def)
  then have "\<not> message_fits LOG_WARNING (replicate 118 (CHR ''x''))"
    by (simp add: message_fits_def log_label_def log_prefix_def LOG_defs
        MAX_TRACELOG_MSG_LENGTH_def)
  then show ?thesis
    by (simp add: TraceLog_desktop desktop_def initial_world_def LOG_defs)
qed

section \<open>Properties of the file helpers\<close>

lemma invalid_name_fits: "message_fits LOG_WARNING ''FILEIO: File name provided is not valid''"
  by (simp add: message_fits_def log_label_def log_prefix_def c_str_def NUL_def LOG_defs
      MAX_TRACELOG_MSG_LENGTH_def)

lemma TraceLog_no_file_call:
  assumes "message_fits logType text"
  shows "\<exists>s1. final_world (TraceLog cfg logType text args s) = Some s1 \<and>
     file_calls s1 = file_calls s \<and> files s1 = files s"
  using assms
  by (simp add: TraceLog_def stage_message_eq final_world_def file_calls_def emit_event_def
      is_file_call_def split: option.split)

lemma TraceLog_log_stream_cong:
  assumes "logTypeLevel t = logTypeLevel s" "logTypeExit t = logTypeExit s"
    and "logCallback t = logCallback s" "log_stream t = log_stream s"
  shows "map_option log_stream
           (final_world (then_do (TraceLog cfg logType text args t)
              (\<lambda>_ s3. Returned () (fclose file s3)))) =
         map_option log_stream
           (final_world (then_do (TraceLog cfg logType text args s)
              (\<lambda>_ s3. Returned () (fclose file s3))))"
  using assms
  by (simp add: TraceLog_def then_do_def final_world_def log_stream_def emit_event_def
      fclose_def is_file_call_def split: option.split sum.split)

lemma TraceLog_desktop_initial:
  assumes "LOG_INFO \<le> logType" "logType < LOG_ERROR" "message_fits logType text"
    and "logTypeLevel s = LOG_INFO" "logTypeExit s = LOG_ERROR" "logCallback s = None"
  shows "TRACELOG desktop logType text args s =
     Returned () (emit_event (Vprintf (log_label logType @ c_str text @ [LF]) args) s)"
  using assms by (simp add: TRACELOG_def TraceLog_desktop desktop_def)

text \<open>
  C4 (as amended). With a null file name each of the four helpers does one thing: it logs
  the warning "FILEIO: File name provided is not valid" through \<^verbatim>\<open>TRACELOG\<close>. The loaders
  then return the null pointer (and zero bytes read). No file is opened, read, written or
  closed, and the file system is as it was.
\<close>

theorem null_path_only_logs:
  "LoadFileData cfg P None s =
     then_do (TRACELOG cfg LOG_WARNING ''FILEIO: File name provided is not valid'' [] s)
       (\<lambda>_ s1. Returned (None, 0) s1) \<and>
   SaveFileData cfg P None data bytesToWrite s =
     TRACELOG cfg LOG_WARNING ''FILEIO: File name provided is not valid'' [] s \<and>
   LoadFileText cfg P None s =
     then_do (TRACELOG cfg LOG_WARNING ''FILEIO: File name provided is not valid'' [] s)
       (\<lambda>_ s1. Returned None s1) \<and>
   SaveFileText cfg P None txt s =
     TRACELOG cfg LOG_WARNING ''FILEIO: File name provided is not valid'' [] s \<and>
   (\<exists>s1. final_world (TRACELOG cfg LOG_WARNING ''FILEIO: File name provided is not valid'' [] s)
           = Some s1 \<and>
         file_calls s1 = file_calls s \<and> files s1 = files s)"
  using TraceLog_no_file_call [OF invalid_name_fits, of cfg "[]" s]
  by (simp add: LoadFileData_def SaveFileData_def LoadFileText_def SaveFileText_def
      TRACELOG_def)

text \<open>With the logger as it starts, on the desktop: the line printed for a null name.\<close>

lemma LoadFileData_null_example:
  "LoadFileData desktop plain_platform None (initial_world Map.empty) =
   Returned (None, 0) ((initial_world Map.empty)
     \<lparr>trace := [Vprintf ''WARNING: FILEIO: File name provided is not valid\<newline>'' []]\<rparr>)"
proof -
  have "TRACELOG desktop LOG_WARNING ''FILEIO: File name provided is not valid'' []
      (initial_world Map.empty) =
    Returned () (emit_event (Vprintf (log_label LOG_WARNING @
      c_str ''FILEIO: File name provided is not valid'' @ [LF]) []) (initial_world Map.empty))"
    using invalid_name_fits
    by (intro TraceLog_desktop_initial) (simp_all add: LOG_defs initial_world_def)
  moreover have "log_label LOG_WARNING @ c_str ''FILEIO: File name provided is not valid'' @ [LF]
      = ''WARNING: FILEIO: File name provided is not valid\<newline>''"
    by (simp add: log_label_def log_prefix_def c_str_def NUL_def LF_def LOG_defs)
  ultimately show ?thesis
    by (simp add: LoadFileData_def then_do_def emit_event_def initial_world_def)
qed

text \<open>
  C4, the claim as stated fails for the empty name: it is not null, so it is handed to
  \<^verbatim>\<open>fopen\<close> like any other name.
\<close>

theorem empty_path_is_opened:
  "map_option file_calls
     (final_world (LoadFileData desktop plain_platform (Some []) (initial_world Map.empty))) =
   Some [Fopen [] ''rb'']"
  by (simp add: LoadFileData_def fopen_def plain_platform_def initial_world_def emit_event_def
      TRACELOG_def TraceLog_desktop desktop_def LOG_defs then_do_def final_world_def
      file_calls_def is_file_call_def message_fits_def log_label_def log_prefix_def c_str_def
      NUL_def MAX_TRACELOG_MSG_LENGTH_def)

text \<open>
  C10. When the file opens and zero bytes are to be written, \<^verbatim>\<open>SaveFileData\<close> logs the
  warning "Failed to write file", not the success message: the test for a count of zero
  comes first. The log stream is the same as that of a save whose write moved no byte at
  all, whatever its data and length were.
\<close>

theorem SaveFileData_zero_length:
  assumes "\<not> PLATFORM_ANDROID cfg"
    and "fopen P name ''wb'' s = (Some file, s1)"
    and "fopen P' name ''wb'' s = (Some file, s1)" and "write_quota P' name = Some 0"
  shows "SaveFileData cfg P (Some name) data 0 s =
     then_do (TRACELOG cfg LOG_WARNING ''FILEIO: [%s] Failed to write file''
                [VA_String (Some name)]
                ((emit_event (Fwrite name 0) s1)\<lparr>files := (files s1)(name \<mapsto> [])\<rparr>))
       (\<lambda>_ s3. Returned () (fclose file s3)) \<and>
   map_option log_stream (final_world (SaveFileData cfg P (Some name) data 0 s)) =
   map_option log_stream (final_world (SaveFileData cfg P' (Some name) data' n s))"
proof -
  have fn: "file_name file = name" and fm: "binary_mode (file_mode file)"
    and fs: "files s1 name = Some []"
    using assms(2)
    by (auto simp: fopen_def Let_def emit_event_def binary_mode_def
        split: if_splits option.splits)
  have w0: "fwrite P data 0 file s1 =
      Inr (0, (emit_event (Fwrite name 0) s1)\<lparr>files := (files s1)(name \<mapsto> [])\<rparr>)"
    using fn fm fs by (simp add: fwrite_def Let_def emit_event_def split: option.split)
  have wn: "fwrite P' data' (unat n) file s1 =
      Inr (0, (emit_event (Fwrite name (unat n)) s1)\<lparr>files := (files s1)(name \<mapsto> [])\<rparr>)"
    using fn fm fs assms(4) by (simp add: fwrite_def Let_def emit_event_def)
  have a: "SaveFileData cfg P (Some name) data 0 s =
     then_do (TRACELOG cfg LOG_WARNING ''FILEIO: [%s] Failed to write file''
                [VA_String (Some name)]
                ((emit_event (Fwrite name 0) s1)\<lparr>files := (files s1)(name \<mapsto> [])\<rparr>))
       (\<lambda>_ s3. Returned () (fclose file s3))"
    using assms(2) w0 by (simp add: SaveFileData_def)
  have b: "SaveFileData cfg P' (Some name) data' n s =
     then_do (TRACELOG cfg LOG_WARNING ''FILEIO: [%s] Failed to write file''
                [VA_String (Some name)]
                ((emit_event (Fwrite name (unat n)) s1)\<lparr>files := (files s1)(name \<mapsto> [])\<rparr>))
       (\<lambda>_ s3. Returned () (fclose file s3))"
    using assms(3) wn by (simp add: SaveFileData_def)
  have c: "map_option log_stream (final_world (SaveFileData cfg P (Some name) data 0 s)) =
      map_option log_stream (final_world (SaveFileData cfg P' (Some name) data' n s))"
    unfolding a b TRACELOG_def
    by (rule TraceLog_log_stream_cong)
      (simp_all add: emit_event_def log_stream_def is_file_call_def)
  from a c show ?thesis by simp
qed

theorem SaveFileData_zero_length_witness:
  "\<not> PLATFORM_ANDROID desktop \<and>
   write_quota (plain_platform\<lparr>write_quota := \<lambda>name. Some 0\<rparr>) ''save.bin'' = Some 0 \<and>
   map_option log_stream (final_world
     (SaveFileData desktop plain_platform (Some ''save.bin'') [] 0 (initial_world Map.empty))) =
   Some [Vprintf ''WARNING: FILEIO: [%s] Failed to write file\<newline>''
           [VA_String (Some ''save.bin'')]] \<and>
   map_option log_stream (final_world
     (SaveFileData desktop (plain_platform\<lparr>write_quota := \<lambda>name. Some 0\<rparr>)
        (Some ''save.bin'') ''abc'' 3 (initial_world Map.empty))) =
   Some [Vprintf ''WARNING: FILEIO: [%s] Failed to write file\<newline>''
           [VA_String (Some ''save.bin'')]]"
proof -
  let ?P' = "plain_platform\<lparr>write_quota := \<lambda>name. Some 0\<rparr>"
  let ?s = "initial_world Map.empty"
  let ?file = "\<lparr>file_name = ''save.bin'', file_mode = ''wb''\<rparr>"
  let ?s1 = "(emit_event (Fopen ''save.bin'' ''wb'') ?s)\<lparr>files := [''save.bin'' \<mapsto> []]\<rparr>"
  have a: "\<not> PLATFORM_ANDROID desktop" by (simp add: desktop_def)
  have b: "fopen plain_platform ''save.bin'' ''wb'' ?s = (Some ?file, ?s1)"
    by (simp add: fopen_def plain_platform_def Let_def emit_event_def initial_world_def)
  have c: "fopen ?P' ''save.bin'' ''wb'' ?s = (Some ?file, ?s1)"
    by (simp add: fopen_def plain_platform_def Let_def emit_event_def initial_world_def)
  have d: "write_quota ?P' ''save.bin'' = Some 0" by simp
  have fits: "message_fits LOG_WARNING ''FILEIO: [%s] Failed to write file''"
    by (simp add: message_fits_def log_label_def log_prefix_def c_str_def NUL_def LOG_defs
        MAX_TRACELOG_MSG_LENGTH_def)
  note th = SaveFileData_zero_length [OF a b c d, of "[]" "''abc''" 3]
  have e: "map_option log_stream (final_world
     (SaveFileData desktop plain_platform (Some ''save.bin'') [] 0 ?s)) =
   Some [Vprintf ''WARNING: FILEIO: [%s] Failed to write file\<newline>''
           [VA_String (Some ''save.bin'')]]"
    unfolding conjunct1 [OF th] using fits
    by (subst TraceLog_desktop_initial)
      (simp_all add: LOG_defs emit_event_def initial_world_def then_do_def
        final_world_def log_stream_def is_file_call_def fclose_def log_label_def
        log_prefix_def c_str_def NUL_def LF_def)
  from a d e conjunct2 [OF th] show ?thesis by simp
qed

subsection \<open>Saving and loading back\<close>

lemma TRACELOG_returns:
  assumes "message_fits logType text" and "logType < logTypeExit s"
  shows "\<exists>evs. TRACELOG cfg logType text args s = Returned () (s\<lparr>trace := trace s @ evs\<rparr>)"
proof (cases "TRACELOG cfg logType text args s = Returned () s")
  case True
  then have "TRACELOG cfg logType text args s = Returned () (s\<lparr>trace := trace s @ []\<rparr>)"
    by simp
  then show ?thesis by blast
next
  case False
  with assms show ?thesis
    by (auto simp: TRACELOG_def TraceLog_def stage_message_eq emit_event_def
        split: option.splits if_splits)
qed

lemma file_messages_fit:
  "message_fits LOG_WARNING ''FILEIO: [%s] Failed to write file''"
  "message_fits LOG_WARNING ''FILEIO: [%s] File partially written''"
  "message_fits LOG_INFO ''FILEIO: [%s] File saved successfully''"
  "message_fits LOG_WARNING ''FILEIO: [%s] Failed to read file''"
  "message_fits LOG_WARNING ''FILEIO: [%s] File partially loaded''"
  "message_fits LOG_INFO ''FILEIO: [%s] File loaded successfully''"
  by (simp_all add: message_fits_def log_label_def log_prefix_def c_str_def NUL_def LOG_defs
      MAX_TRACELOG_MSG_LENGTH_def)

lemma unat_length_32: "n < 2 ^ 32 \<Longrightarrow> unat (word_of_nat n :: 32 word) = n"
  by (simp add: unat_of_nat take_bit_nat_eq_self)

lemma sint_length_32:
  assumes "n < 2 ^ 31"
  shows "sint (word_of_int (int n) :: 32 word) = int n"
proof -
  have "int n < 2 ^ 31" using assms by (simp add: of_nat_less_iff [of n "2 ^ 31", simplified])
  moreover have "- (2 ^ 31) \<le> int n" by simp
  ultimately have "signed_take_bit 31 (int n) = int n"
    by (rule signed_take_bit_int_eq_self [rotated])
  then show ?thesis by (simp add: signed_of_nat)
qed

lemma SaveFileData_writes:
  assumes "\<not> fopen_denied P name ''wb''" and "write_quota P name = None"
    and "length data < 2 ^ 32" and "LOG_WARNING < logTypeExit s"
  shows "\<exists>evs. SaveFileData cfg P (Some name) data (word_of_nat (length data)) s =
     Returned () (s\<lparr>files := (files s)(name \<mapsto> data), trace := trace s @ evs\<rparr>)"
proof -
  let ?file = "\<lparr>file_name = name, file_mode = ''wb''\<rparr>"
  let ?s1 = "s\<lparr>files := (files s)(name \<mapsto> []), trace := trace s @ [Fopen name ''wb'']\<rparr>"
  let ?s2 = "s\<lparr>files := (files s)(name \<mapsto> data),
               trace := trace s @ [Fopen name ''wb'', Fwrite name (length data)]\<rparr>"
  let ?n = "word_of_nat (length data) :: 32 word"
  have op: "fopen P name ''wb'' s = (Some ?file, ?s1)"
    using assms(1) by (simp add: fopen_def Let_def emit_event_def)
  have wr: "fwrite P data (unat ?n) ?file ?s1 = Inr (length data, ?s2)"
    using assms(2,3) by (simp add: fwrite_def Let_def emit_event_def binary_mode_def unat_length_32)
  have ex: "LOG_WARNING < logTypeExit ?s2" "LOG_INFO < logTypeExit ?s2"
    using assms(4) by (simp_all add: LOG_defs)
  obtain evs where lg:
    "(if ?n = 0
      then TRACELOG cfg LOG_WARNING ''FILEIO: [%s] Failed to write file''
             [VA_String (Some name)] ?s2
      else if ?n \<noteq> ?n
      then TRACELOG cfg LOG_WARNING ''FILEIO: [%s] File partially written''
             [VA_String (Some name)] ?s2
      else TRACELOG cfg LOG_INFO ''FILEIO: [%s] File saved successfully''
             [VA_String (Some name)] ?s2) = Returned () (?s2\<lparr>trace := trace ?s2 @ evs\<rparr>)"
    using TRACELOG_returns [OF file_messages_fit(1) ex(1), of cfg "[VA_String (Some name)]"]
      TRACELOG_returns [OF file_messages_fit(3) ex(2), of cfg "[VA_String (Some name)]"]
    by (cases "?n = 0") auto
  have "SaveFileData cfg P (Some name) data ?n s =
      Returned () (fclose ?file (?s2\<lparr>trace := trace ?s2 @ evs\<rparr>))"
    unfolding SaveFileData_def using op wr lg by (simp add: then_do_def Let_def)
  then have "SaveFileData cfg P (Some name) data ?n s =
      Returned () (s\<lparr>files := (files s)(name \<mapsto> data),
        trace := trace s @ ([Fopen name ''wb'', Fwrite name (length data)] @ evs @ [Fclose name])\<rparr>)"
    by (simp add: fclose_def emit_event_def)
  then show ?thesis by blast
qed

lemma LoadFileData_reads:
  assumes "\<not> fopen_denied P name ''rb''" and "read_quota P name = None"
    and "\<not> ftell_fails P name" and "files t name = Some data"
    and "length data < 2 ^ 31" and "LOG_WARNING < logTypeExit t"
  shows "\<exists>evs. LoadFileData cfg P (Some name) t =
     Returned (if data = [] then None else Some (map Some data), word_of_nat (length data))
       (t\<lparr>trace := trace t @ evs\<rparr>)"
proof -
  let ?file = "\<lparr>file_name = name, file_mode = ''rb''\<rparr>"
  let ?t1 = "t\<lparr>trace := trace t @ [Fopen name ''rb'']\<rparr>"
  let ?n = "word_of_int (int (length data)) :: 32 word"
  have op: "fopen P name ''rb'' t = (Some ?file, ?t1)"
    using assms(1,4) by (simp add: fopen_def Let_def emit_event_def)
  have sz: "ftell_end P ?file ?t1 = int (length data)"
    using assms(3,4) by (simp add: ftell_end_def)
  have si: "sint ?n = int (length data)" using assms(5) by (rule sint_length_32)
  have un: "unat ?n = length data"
    using assms(5) unat_length_32 [of "length data"] by simp
  show ?thesis
  proof (cases "data = []")
    case True
    have ex: "LOG_WARNING < logTypeExit ?t1" using assms(6) by simp
    obtain evs where lg: "TRACELOG cfg LOG_WARNING ''FILEIO: [%s] Failed to read file''
        [VA_String (Some name)] ?t1 = Returned () (?t1\<lparr>trace := trace ?t1 @ evs\<rparr>)"
      using TRACELOG_returns [OF file_messages_fit(4) ex] by blast
    have "LoadFileData cfg P (Some name) t =
        Returned (None, 0) (fclose ?file (?t1\<lparr>trace := trace ?t1 @ evs\<rparr>))"
      unfolding LoadFileData_def using op sz True lg by (simp add: then_do_def Let_def)
    then have "LoadFileData cfg P (Some name) t =
        Returned (None, 0) (t\<lparr>trace := trace t @ ([Fopen name ''rb''] @ evs @ [Fclose name])\<rparr>)"
      by (simp add: fclose_def emit_event_def)
    with True show ?thesis by auto
  next
    case False
    let ?t2 = "t\<lparr>trace := trace t @ [Fopen name ''rb'', Fread name (length data)]\<rparr>"
    have ex: "LOG_INFO < logTypeExit ?t2" using assms(6) by (simp add: LOG_defs)
    have rd: "fread P (RL_MALLOC (length data)) (length data) ?file ?t1 =
        Inr (map Some data, length data, ?t2)"
      using assms(2,4)
      by (simp add: fread_def Let_def stream_bytes_def binary_mode_def RL_MALLOC_def
          emit_event_def)
    obtain evs where lg: "TRACELOG cfg LOG_INFO ''FILEIO: [%s] File loaded successfully''
        [VA_String (Some name)] ?t2 = Returned () (?t2\<lparr>trace := trace ?t2 @ evs\<rparr>)"
      using TRACELOG_returns [OF file_messages_fit(6) ex] by blast
    have pos: "0 < sint ?n" using si False by simp
    have "LoadFileData cfg P (Some name) t =
        Returned (Some (map Some data), word_of_nat (length data))
          (fclose ?file (?t2\<lparr>trace := trace ?t2 @ evs\<rparr>))"
      unfolding LoadFileData_def using op sz pos un rd lg
      by (simp add: then_do_def Let_def)
    then have "LoadFileData cfg P (Some name) t =
        Returned (Some (map Some data), word_of_nat (length data))
          (t\<lparr>trace := trace t @
               ([Fopen name ''rb'', Fread name (length data)] @ evs @ [Fclose name])\<rparr>)"
      by (simp add: fclose_def emit_event_def)
    with False show ?thesis by auto
  qed
qed

lemma LoadFileData_2GiB:
  assumes "\<not> fopen_denied P name ''rb''" and "\<not> ftell_fails P name"
    and "files t name = Some data" and "length data = 2 ^ 31"
    and "LOG_WARNING < logTypeExit t"
  shows "\<exists>evs. LoadFileData cfg P (Some name) t =
     Returned (None, 0) (t\<lparr>trace := trace t @ evs\<rparr>)"
proof -
  let ?file = "\<lparr>file_name = name, file_mode = ''rb''\<rparr>"
  let ?t1 = "t\<lparr>trace := trace t @ [Fopen name ''rb'']\<rparr>"
  have op: "fopen P name ''rb'' t = (Some ?file, ?t1)"
    using assms(1,3) by (simp add: fopen_def Let_def emit_event_def)
  have sz: "ftell_end P ?file ?t1 = 2147483648"
    using assms(2,3,4) by (simp add: ftell_end_def)
  have neg: "\<not> 0 < sint (word_of_int 2147483648 :: 32 word)" by simp
  have ex: "LOG_WARNING < logTypeExit ?t1" using assms(5) by simp
  obtain evs where lg: "TRACELOG cfg LOG_WARNING ''FILEIO: [%s] Failed to read file''
      [VA_String (Some name)] ?t1 = Returned () (?t1\<lparr>trace := trace ?t1 @ evs\<rparr>)"
    using TRACELOG_returns [OF file_messages_fit(4) ex] by blast
  have "LoadFileData cfg P (Some name) t =
      Returned (None, 0) (fclose ?file (?t1\<lparr>trace := trace ?t1 @ evs\<rparr>))"
    unfolding LoadFileData_def using op sz neg lg by (simp add: then_do_def Let_def)
  then have "LoadFileData cfg P (Some name) t =
      Returned (None, 0) (t\<lparr>trace := trace t @ ([Fopen name ''rb''] @ evs @ [Fclose name])\<rparr>)"
    by (simp add: fclose_def emit_event_def)
  then show ?thesis by blast
qed

text \<open>
  C6 (as amended). In a build for a platform other than Android, where the helpers open
  files with the \<^verbatim>\<open>fopen\<close> of the C library: on a platform where both opens of the
  name succeed, the size of the file can be told and the write and the read are
  complete, and with the exit threshold above warnings (so that the two calls return),
  saving fewer than \<open>2 ^ 31\<close> bytes and loading the name back returns the same bytes,
  zero bytes included, and reports their number; for no bytes at all the buffer returned
  is the null pointer.
\<close>

theorem save_then_load_roundtrip:
  assumes "\<not> PLATFORM_ANDROID cfg"
    and "\<not> fopen_denied P name ''wb''" and "\<not> fopen_denied P name ''rb''"
    and "\<not> ftell_fails P name"
    and "write_quota P name = None" and "read_quota P name = None"
    and "length data < 2 ^ 31" and "LOG_WARNING < logTypeExit s"
  shows "returned (then_do (SaveFileData cfg P (Some name) data (word_of_nat (length data)) s)
                     (\<lambda>_. LoadFileData cfg P (Some name))) =
     Some (if data = [] then None else Some (map Some data), word_of_nat (length data))"
proof -
  have "length data < 2 ^ 32" using assms(7) by simp
  from SaveFileData_writes [OF assms(2,5) this assms(8)]
  obtain evs where sv: "SaveFileData cfg P (Some name) data (word_of_nat (length data)) s =
      Returned () (s\<lparr>files := (files s)(name \<mapsto> data), trace := trace s @ evs\<rparr>)"
    by blast
  let ?t = "s\<lparr>files := (files s)(name \<mapsto> data), trace := trace s @ evs\<rparr>"
  have "files ?t name = Some data" and "LOG_WARNING < logTypeExit ?t"
    using assms(8) by simp_all
  from LoadFileData_reads [OF assms(3,6,4) this(1) assms(7) this(2)]
  obtain evs' where "LoadFileData cfg P (Some name) ?t =
      Returned (if data = [] then None else Some (map Some data), word_of_nat (length data))
        (?t\<lparr>trace := trace ?t @ evs'\<rparr>)"
    by blast
  with sv show ?thesis by (simp add: then_do_def returned_def)
qed

theorem save_then_load_roundtrip_witness:
  "length [CHR ''a'', NUL, CHR ''b''] < (2::nat) ^ 31 \<and>
   LOG_WARNING < logTypeExit (initial_world Map.empty) \<and>
   returned (then_do (SaveFileData desktop plain_platform (Some ''blob.bin'')
                        [CHR ''a'', NUL, CHR ''b''] 3 (initial_world Map.empty))
               (\<lambda>_. LoadFileData desktop plain_platform (Some ''blob.bin''))) =
   Some (Some [Some (CHR ''a''), Some NUL, Some (CHR ''b'')], 3)"
proof -
  have a: "\<not> PLATFORM_ANDROID desktop" by (simp add: desktop_def)
  have b: "\<not> fopen_denied plain_platform ''blob.bin'' ''wb''"
    "\<not> fopen_denied plain_platform ''blob.bin'' ''rb''"
    "\<not> ftell_fails plain_platform ''blob.bin''"
    "write_quota plain_platform ''blob.bin'' = None"
    "read_quota plain_platform ''blob.bin'' = None"
    by (simp_all add: plain_platform_def)
  have c: "length [CHR ''a'', NUL, CHR ''b''] < (2::nat) ^ 31" by simp
  have d: "LOG_WARNING < logTypeExit (initial_world Map.empty)"
    by (simp add: initial_world_def LOG_defs)
  from save_then_load_roundtrip [OF a b c d] c d show ?thesis by simp
qed

text \<open>
  C6, the claim as stated fails for a length the \<^verbatim>\<open>int\<close> that holds the file size
  cannot express: \<open>2 ^ 31\<close> bytes are saved in full, and the load finds a size that is
  not positive and returns the null pointer and zero bytes read.
\<close>

theorem roundtrip_fails_at_2GiB:
  "returned (then_do (SaveFileData desktop plain_platform (Some ''blob.bin'')
                        (replicate (2 ^ 31) NUL) (2 ^ 31) (initial_world Map.empty))
               (\<lambda>_. LoadFileData desktop plain_platform (Some ''blob.bin''))) =
   Some (None, 0)"
proof -
  let ?data = "replicate (2 ^ 31) NUL"
  let ?s = "initial_world Map.empty"
  have b: "\<not> fopen_denied plain_platform ''blob.bin'' ''wb''"
    "\<not> fopen_denied plain_platform ''blob.bin'' ''rb''"
    "\<not> ftell_fails plain_platform ''blob.bin''"
    "write_quota plain_platform ''blob.bin'' = None"
    by (simp_all add: plain_platform_def)
  have l: "length ?data < 2 ^ 32" by simp
  have d: "LOG_WARNING < logTypeExit ?s" by (simp add: initial_world_def LOG_defs)
  have n: "(word_of_nat (length ?data) :: 32 word) = 2 ^ 31" by simp
  from SaveFileData_writes [OF b(1,4) l d, of desktop]
  obtain evs where sv: "SaveFileData desktop plain_platform (Some ''blob.bin'') ?data (2 ^ 31) ?s =
      Returned () (?s\<lparr>files := (files ?s)(''blob.bin'' \<mapsto> ?data), trace := trace ?s @ evs\<rparr>)"
    unfolding n by blast
  let ?t = "?s\<lparr>files := (files ?s)(''blob.bin'' \<mapsto> ?data), trace := trace ?s @ evs\<rparr>"
  have "files ?t ''blob.bin'' = Some ?data" and "length ?data = 2 ^ 31"
    and "LOG_WARNING < logTypeExit ?t"
    using d by simp_all
  from LoadFileData_2GiB [OF b(2,3) this, of desktop]
  obtain evs' where "LoadFileData desktop plain_platform (Some ''blob.bin'') ?t =
      Returned (None, 0) (?t\<lparr>trace := trace ?t @ evs'\<rparr>)"
    by blast
  with sv show ?thesis by (simp add: then_do_def returned_def)
qed

text \<open>
  Why the round trip is stated for builds other than Android: there the helpers open
  through \<^verbatim>\<open>android_fopen\<close>. A save goes to the name under the internal data path, and
  a load of a name that the bundle holds gets the stream over the asset, whatever has
  been saved under the data path.
\<close>

lemma android_fopen_read_mode_prefers_asset:
  "android_fopen plain_platform ''blob.bin'' ''rb''
     (InitAssetManager (Some [''blob.bin'' \<mapsto> ''shipped'']) (Some ''/data'')
        (initial_world [''/data/blob.bin'' \<mapsto> ''saved''])) =
   Returned (Some (Asset_Stream ''blob.bin''))
     ((InitAssetManager (Some [''blob.bin'' \<mapsto> ''shipped'']) (Some ''/data'')
         (initial_world [''/data/blob.bin'' \<mapsto> ''saved'']))
        \<lparr>trace := [AAssetManager_Open ''blob.bin'', Funopen ''blob.bin'']\<rparr>)"
  by (simp add: android_fopen_def AAssetManager_open_def InitAssetManager_def
      initial_world_def then_do_def emit_event_def NUL_def)

subsection \<open>Loading text\<close>

text \<open>
  What holds of \<^verbatim>\<open>LoadFileText\<close>: after a read of fewer characters than the size
  found, the block returned has one byte more than the characters read, the terminator
  last; a file of size zero gives the warning and the null pointer.
\<close>

lemma unat_succ_below:
  fixes count sz :: "32 word"
  assumes "count < sz"
  shows "unat (count + 1) = Suc (unat count)"
proof -
  have "unat count < unat sz" using assms by (simp add: word_less_nat_alt)
  moreover have "unat sz < 2 ^ 32" using unsigned_less [of sz, where 'a = nat] by simp
  ultimately have "unat count + 1 < 2 ^ 32" by simp
  then have "unat count + unat (1 :: 32 word) < 2 ^ LENGTH(32)" by simp
  then have "unat (count + 1) = unat count + unat (1 :: 32 word)"
    by (simp only: unat_add_lem)
  then show ?thesis by simp
qed

lemma LoadFileText_short_read:
  fixes sz :: "32 word"
  assumes "fopen P name ''rt'' s = (Some textFile, s1)"
    and "sz = word_of_int (ftell_end P textFile s1)"
    and "fread P (RL_MALLOC (unat (sz + 1))) (unat sz) textFile s1 = Inr (buf, k, s2)"
    and "(word_of_nat k :: 32 word) < sz"
    and "LoadFileText cfg P (Some name) s = Returned r s3"
  shows "\<exists>text. r = Some text \<and> length text = unat (word_of_nat k :: 32 word) + 1 \<and>
     text ! unat (word_of_nat k :: 32 word) = Some NUL"
proof -
  let ?count = "word_of_nat k :: 32 word"
  have pos: "0 < sz"
  proof -
    have "0 \<le> ?count" by simp
    from this assms(4) show ?thesis by (rule le_less_trans)
  qed
  have len: "length (RL_REALLOC buf (unat (?count + 1))) = Suc (unat ?count)"
    using unat_succ_below [OF assms(4)] by (simp add: RL_REALLOC_def)
  show ?thesis
    using assms(5) pos len
    unfolding LoadFileText_def
    by (simp add: assms(1) assms(2) [symmetric] assms(3) assms(4) Let_def then_do_def
        split: outcome.splits)
      (auto simp: nth_list_update)
qed

lemma LoadFileText_empty_file:
  assumes "fopen P name ''rt'' s = (Some textFile, s1)"
    and "ftell_end P textFile s1 = 0"
  shows "LoadFileText cfg P (Some name) s =
     then_do (TRACELOG cfg LOG_WARNING ''FILEIO: [%s] Failed to read text file''
                [VA_String (Some name)] s1)
       (\<lambda>_ s2. Returned None (fclose textFile s2))"
  using assms by (simp add: LoadFileText_def)

text \<open>
  C7. The size that cannot be told is not caught: \<^verbatim>\<open>ftell\<close> returns -1, the cast to
  \<^verbatim>\<open>unsigned int\<close> makes it 4294967295, and the test \<^verbatim>\<open>size > 0\<close> passes. On a
  stream with nothing to read the call allocates \<open>size + 1 = 0\<close> bytes, asks for
  4294967295 characters, and returns an empty string with the message of success at
  info level, where the claim has a null result and a warning.
\<close>

theorem LoadFileText_unreadable_size:
  "LoadFileText desktop (plain_platform\<lparr>ftell_fails := \<lambda>name. True\<rparr>) (Some ''pipe'')
     (initial_world [''pipe'' \<mapsto> []]) =
   Returned (Some [Some NUL])
     ((initial_world [''pipe'' \<mapsto> []])
        \<lparr>trace := [Fopen ''pipe'' ''rt'', Fread ''pipe'' 4294967295,
                   Vprintf ''INFO: FILEIO: [%s] Text file loaded successfully\<newline>''
                     [VA_String (Some ''pipe'')],
                   Fclose ''pipe'']\<rparr>)"
proof -
  let ?P = "plain_platform\<lparr>ftell_fails := \<lambda>name. True\<rparr>"
  let ?s = "initial_world [''pipe'' \<mapsto> []]"
  let ?file = "\<lparr>file_name = ''pipe'', file_mode = ''rt''\<rparr>"
  let ?s1 = "?s\<lparr>trace := [Fopen ''pipe'' ''rt'']\<rparr>"
  let ?s2 = "?s\<lparr>trace := [Fopen ''pipe'' ''rt'', Fread ''pipe'' 4294967295]\<rparr>"
  have op: "fopen ?P ''pipe'' ''rt'' ?s = (Some ?file, ?s1)"
    by (simp add: fopen_def plain_platform_def Let_def emit_event_def initial_world_def)
  have sz: "ftell_end ?P ?file ?s1 = - 1" by (simp add: ftell_end_def)
  have w: "(word_of_int (- 1) :: 32 word) = - 1" "(0 :: 32 word) < - 1"
    "unat (- 1 + 1 :: 32 word) = 0" "unat (- 1 :: 32 word) = 4294967295"
    by (simp_all add: word_gt_0 unsigned_minus_1_eq_mask mask_eq_exp_minus_1)
  have rd: "fread ?P (RL_MALLOC 0) 4294967295 ?file ?s1 = Inr ([], 0, ?s2)"
    by (simp add: fread_def Let_def stream_bytes_def binary_mode_def RL_MALLOC_def
        emit_event_def plain_platform_def initial_world_def)
  have fits: "message_fits LOG_INFO ''FILEIO: [%s] Text file loaded successfully''"
    by (simp add: message_fits_def log_label_def log_prefix_def c_str_def NUL_def LOG_defs
        MAX_TRACELOG_MSG_LENGTH_def)
  have lg: "TRACELOG desktop LOG_INFO ''FILEIO: [%s] Text file loaded successfully''
      [VA_String (Some ''pipe'')] ?s2 =
    Returned () (emit_event (Vprintf (log_label LOG_INFO @
      c_str ''FILEIO: [%s] Text file loaded successfully'' @ [LF]) [VA_String (Some ''pipe'')]) ?s2)"
    using fits by (intro TraceLog_desktop_initial) (simp_all add: LOG_defs initial_world_def)
  have lb: "log_label LOG_INFO @ c_str ''FILEIO: [%s] Text file loaded successfully'' @ [LF] =
      ''INFO: FILEIO: [%s] Text file loaded successfully\<newline>''"
    by (simp add: log_label_def log_prefix_def c_str_def NUL_def LF_def LOG_defs)
  show ?thesis
    unfolding LoadFileText_def
    by (simp add: op sz w rd lg lb Let_def then_do_def RL_REALLOC_def fclose_def
        emit_event_def)
qed

section \<open>Properties of the asset shim\<close>

text \<open>
  C8 (as amended). For a mode whose first character is \<^verbatim>\<open>w\<close>, \<^verbatim>\<open>android_fopen\<close> is
  the C library's \<^verbatim>\<open>fopen\<close> of the name under the internal data path, with the same
  mode, and the asset bundle is not called.
\<close>

theorem android_fopen_w_mode:
  "\<exists>file s1.
     android_fopen P fileName (CHR ''w'' # rest) s = Returned (map_option Std_Stream file) s1 \<and>
     fopen P (TextFormat P ''%s/%s''
                [VA_String (internalDataPath s), VA_String (Some fileName)])
       (CHR ''w'' # rest) s = (file, s1) \<and>
     asset_calls s1 = asset_calls s"
  by (auto simp: android_fopen_def fopen_def Let_def asset_calls_def emit_event_def
      split: prod.splits)

text \<open>
  C8, the claim as stated fails for the modes that write without starting with
  \<^verbatim>\<open>w\<close>: an open for appending asks the asset manager first, and gets the read-only
  stream over the asset when the bundle has one of that name.
\<close>

theorem android_fopen_append_mode_opens_asset:
  "android_fopen plain_platform ''save.dat'' ''ab''
     (InitAssetManager (Some [''save.dat'' \<mapsto> ''shipped'']) (Some ''/data'')
        (initial_world Map.empty)) =
   Returned (Some (Asset_Stream ''save.dat''))
     ((InitAssetManager (Some [''save.dat'' \<mapsto> ''shipped'']) (Some ''/data'')
         (initial_world Map.empty))
        \<lparr>trace := [AAssetManager_Open ''save.dat'', Funopen ''save.dat'']\<rparr>)"
  by (simp add: android_fopen_def AAssetManager_open_def InitAssetManager_def
      initial_world_def then_do_def emit_event_def NUL_def)

text \<open>
  C9. \<^verbatim>\<open>android_write\<close> logs the warning and returns \<^verbatim>\<open>EACCES\<close>, which is 13:
  a positive number, which the stream built by \<^verbatim>\<open>funopen\<close> reads as 13 bytes written,
  not as an error.
\<close>

theorem android_write_reports_bytes_written:
  "android_write android ''logo.png'' ''abc'' 3 (initial_world Map.empty) =
     Returned 13 ((initial_world Map.empty)
       \<lparr>trace := [Android_Log_Vprint ANDROID_LOG_WARN ''raylib''
                    ''ANDROID: Failed to provide write access to APK'' []]\<rparr>) \<and>
   funopen_write_result 13 = Some 13"
  by (simp add: android_write_def TRACELOG_def TraceLog_def android_def initial_world_def
      android_priority_def LOG_defs then_do_def emit_event_def EACCES_def
      funopen_write_result_def)

end
